theory Spec2Isabelle
  imports Complex_Main "HOL-Library.Sublist" "HOL-Library.Word" "HOL-Library.Log_Nat"
begin

section \<open>Strings\<close>

text \<open>
  A JavaScript string is a sequence of UTF-16 code units. The string literals of the sources
  are ASCII; \<open>utf16\<close> gives the code units of such a literal.
\<close>

type_synonym code_unit = "16 word"

type_synonym jsstring = "code_unit list"

definition utf16 :: "string \<Rightarrow> jsstring" where
  "utf16 s = map (\<lambda>c. of_nat (of_char c)) s"

text \<open>\<open>String.prototype.trim\<close> strips white space and line terminators from both ends:
  TAB, LF, VT, FF, CR, SP, NBSP, the other space separators (U+1680, U+2000 to U+200A, U+202F,
  U+205F, U+3000), LS, PS and the byte order mark U+FEFF. All of them are single code units.\<close>

definition is_white_space :: "code_unit \<Rightarrow> bool" where
  "is_white_space u =
    (u \<in> set [0x0009, 0x000A, 0x000B, 0x000C, 0x000D, 0x0020, 0x00A0, 0x1680,
               0x2000, 0x2001, 0x2002, 0x2003, 0x2004, 0x2005, 0x2006, 0x2007, 0x2008, 0x2009,
               0x200A, 0x2028, 0x2029, 0x202F, 0x205F, 0x3000, 0xFEFF])"

definition trim :: "jsstring \<Rightarrow> jsstring" where
  "trim s = rev (dropWhile is_white_space (rev (dropWhile is_white_space s)))"

text \<open>\<open>toUpperCase\<close> of a string of one code unit. On ASCII it maps \<open>a\<close> to \<open>z\<close> to
  \<open>A\<close> to \<open>Z\<close> and nothing else; beyond ASCII the result is given by the Unicode tables of
  the platform (it can be longer than one code unit), which are a parameter here.\<close>

definition toUpperCase :: "(code_unit \<Rightarrow> jsstring) \<Rightarrow> code_unit \<Rightarrow> jsstring" where
  "toUpperCase unicode_upper u =
    (if 0x61 \<le> u \<and> u \<le> 0x7A then [u - 0x20]
     else if u < 0x80 then [u]
     else unicode_upper u)"

section \<open>Numbers\<close>

text \<open>
  A JavaScript number is an IEEE 754 double. A finite number is modelled by its exact value,
  a rational (\<open>-0\<close> is \<open>0\<close>). \<open>to_double\<close> rounds a rational to the nearest double, ties
  to even: it is what a decimal literal denotes and what an arithmetic operation returns for
  its exact result. It covers the normal range (magnitudes from \<open>2^-1022\<close> up to the largest
  double), in which all numbers of the sources lie.
\<close>

definition round_half_even :: "rat \<Rightarrow> int" where
  "round_half_even x =
    (let f = \<lfloor>x\<rfloor>; r = x - of_int f
     in if r < 1 / 2 then f else if 1 / 2 < r then f + 1 else if even f then f else f + 1)"

text \<open>The exponent \<open>e\<close> of a positive rational \<open>x\<close>: \<open>2^e \<le> x < 2^(e+1)\<close>.\<close>

definition binary_exponent :: "rat \<Rightarrow> int" where
  "binary_exponent x =
    (if 1 \<le> x then bitlen \<lfloor>x\<rfloor> - 1
     else (let k = bitlen \<lfloor>1 / x\<rfloor>
           in if x * 2 ^ nat (k - 1) = 1 then - (k - 1) else - k))"

text \<open>The factor that brings a number of exponent \<open>e\<close> to a 53-bit integer significand.\<close>

definition binary_scale :: "int \<Rightarrow> rat" where
  "binary_scale e = (if e \<le> 52 then 2 ^ nat (52 - e) else 1 / 2 ^ nat (e - 52))"

definition to_double :: "rat \<Rightarrow> rat" where
  "to_double x =
    (if x = 0 then 0
     else (let s = binary_scale (binary_exponent \<bar>x\<bar>)
           in sgn x * of_int (round_half_even (\<bar>x\<bar> * s)) / s))"

text \<open>The remainder operator \<open>x % y\<close>: the quotient is truncated towards zero, so the result
  has the sign of \<open>x\<close>; on doubles the result is exact. (The source only divides by the
  constant 360.)\<close>

definition js_trunc :: "rat \<Rightarrow> int" where
  "js_trunc q = (if 0 \<le> q then \<lfloor>q\<rfloor> else \<lceil>q\<rceil>)"

definition js_rem :: "rat \<Rightarrow> rat \<Rightarrow> rat" where
  "js_rem x y = x - y * of_int (js_trunc (x / y))"

section \<open>Loosely typed values\<close>

text \<open>
  The chart records are TypeScript \<open>any\<close>. A value is \<open>undefined\<close>, \<open>null\<close>, a boolean, a
  number (finite, \<open>NaN\<close>, or an infinity with its sign), a string, a big integer, a symbol, or
  an object (an array and a function are objects), which is known by its reference.
  \<open>JProtoMember k\<close> is the member \<open>k\<close> of \<open>Object.prototype\<close>, the object that every record
  inherits from.
\<close>

datatype jsval =
  JUndefined | JNull | JBool bool | JNum rat | JNaN | JInfinity bool | JStr jsstring
  | JBigInt int | JSymbol nat | JObject nat | JProtoMember jsstring

text \<open>JavaScript truthiness (\<open>Boolean(v)\<close>): the falsy values are \<open>undefined\<close>, \<open>null\<close>,
  \<open>false\<close>, \<open>0\<close>, \<open>NaN\<close>, \<open>0n\<close> and the empty string.\<close>

fun truthy :: "jsval \<Rightarrow> bool" where
  "truthy JUndefined = False"
| "truthy JNull = False"
| "truthy (JBool b) = b"
| "truthy (JNum n) = (n \<noteq> 0)"
| "truthy JNaN = False"
| "truthy (JInfinity s) = True"
| "truthy (JStr s) = (s \<noteq> [])"
| "truthy (JBigInt n) = (n \<noteq> 0)"
| "truthy (JSymbol s) = True"
| "truthy (JObject r) = True"
| "truthy (JProtoMember k) = True"

text \<open>The operator \<open>a || b\<close>: the left operand when it is truthy, the right one otherwise.\<close>

definition js_or :: "jsval \<Rightarrow> jsval \<Rightarrow> jsval" where
  "js_or a b = (if truthy a then a else b)"

text \<open>A record is a plain object: the list of its own properties in enumeration order, each
  key once. Reading a property looks at the record's own properties first and then at
  \<open>Object.prototype\<close>, whose members are functions (\<open>__proto__\<close> reads the prototype object
  itself); a name found in neither reads as \<open>undefined\<close>.\<close>

type_synonym jsrecord = "(jsstring \<times> jsval) list"

definition object_prototype_members :: "jsstring list" where
  "object_prototype_members =
    map utf16
      [''constructor'', ''__defineGetter__'', ''__defineSetter__'', ''hasOwnProperty'',
       ''__lookupGetter__'', ''__lookupSetter__'', ''isPrototypeOf'', ''propertyIsEnumerable'',
       ''toString'', ''valueOf'', ''__proto__'', ''toLocaleString'']"

definition get_prop :: "jsrecord \<Rightarrow> jsstring \<Rightarrow> jsval" where
  "get_prop d k =
    (case map_of d k of
       Some v \<Rightarrow> v
     | None \<Rightarrow> if k \<in> set object_prototype_members then JProtoMember k else JUndefined)"

definition object_keys :: "jsrecord \<Rightarrow> jsstring list" where
  "object_keys d = map fst d"

section \<open>Chart renderer: colours\<close>

text \<open>A CSS colour string, kept structured: \<open>rgba(r, g, b, alpha)\<close> and
  \<open>hsla(hue, s%, l%, alpha)\<close>. The fields are the numbers that the template literal
  interpolates; the string shows each double in its shortest decimal form.\<close>

datatype color = Rgba nat nat nat rat | Hsla rat nat nat rat

definition palette8 :: "rat \<Rightarrow> color list" where
  "palette8 alpha =
    [Rgba 76 175 80 alpha, Rgba 33 150 243 alpha, Rgba 255 193 7 alpha, Rgba 244 67 54 alpha,
     Rgba 156 39 176 alpha, Rgba 0 188 212 alpha, Rgba 255 152 0 alpha, Rgba 121 85 72 alpha]"

text \<open>\<open>(i * 137.508) % 360\<close>: the literal is a double, the product is rounded to a double,
  the remainder is exact. The counter \<open>i\<close> is an integer below \<open>2^53\<close>, hence exact.\<close>

definition hue :: "nat \<Rightarrow> rat" where
  "hue i = js_rem (to_double (of_nat i * to_double 137.508)) 360"

text \<open>The loop \<open>for (let i = colors.length; i < count; i++) additionalColors.push(...)\<close>.\<close>

function additionalColors :: "rat \<Rightarrow> nat \<Rightarrow> nat \<Rightarrow> color list \<Rightarrow> color list" where
  "additionalColors alpha i count acc =
    (if i < count then additionalColors alpha (Suc i) count (acc @ [Hsla (hue i) 70 65 alpha])
     else acc)"
  by pat_completeness auto
termination
  by (relation "measure (\<lambda>(alpha, i, count, acc). count - i)") auto

declare additionalColors.simps [simp del]

text \<open>\<open>generateColors(count, alpha)\<close>; \<open>count\<close> is a length, so a natural number, and
  \<open>slice(0, count)\<close> is \<open>take count\<close>.\<close>

definition generateColors :: "nat \<Rightarrow> rat \<Rightarrow> color list" where
  "generateColors count alpha =
    (let colors = palette8 alpha in
     if count > length colors
     then take count (colors @ additionalColors alpha (length colors) count [])
     else take count colors)"

definition palette6 :: "rat \<Rightarrow> color list" where
  "palette6 alpha =
    [Rgba 76 175 80 alpha, Rgba 33 150 243 alpha, Rgba 255 193 7 alpha, Rgba 244 67 54 alpha,
     Rgba 156 39 176 alpha, Rgba 0 188 212 alpha]"

text \<open>\<open>getColor(index, alpha)\<close> reads \<open>colors[index % colors.length]\<close>; an index outside the
  array would read \<open>undefined\<close>, which is \<open>None\<close> here.\<close>

definition getColor :: "nat \<Rightarrow> rat \<Rightarrow> color option" where
  "getColor index alpha =
    (let colors = palette6 alpha; j = index mod length colors in
     if j < length colors then Some (colors ! j) else None)"

section \<open>Chart renderer: deriving labels and series\<close>

datatype chart_kind = Line | Bar | Pie | Doughnut

text \<open>A dataset's colour is either one colour (series kinds, from \<open>getColor\<close>) or one colour
  per slice (categorical kinds, from \<open>generateColors\<close>).\<close>

datatype color_spec = OneColor "color option" | ColorList "color list"

record dataset =
  ds_label :: "jsstring option"
  ds_data :: "jsval list"
  borderColor :: color_spec
  backgroundColor :: color_spec
  fill :: "bool option"
  tension :: "rat option"
  borderWidth :: nat

record chart_options =
  responsive :: bool
  maintainAspectRatio :: bool
  legend_display :: bool
  legend_position :: jsstring
  title_display :: bool
  title_text :: jsstring
  title_font_size :: nat
  scales_y_beginAtZero :: "bool option"

record chart_config =
  cfg_type :: chart_kind
  cfg_labels :: "jsval list"
  cfg_datasets :: "dataset list"
  cfg_options :: chart_options

text \<open>\<open>Array.from(new Set(xs))\<close>: a Set keeps the first insertion of each value, in insertion
  order; on scalars its SameValueZero comparison is equality.\<close>

definition set_add :: "jsval list \<Rightarrow> jsval \<Rightarrow> jsval list" where
  "set_add s x = (if x \<in> set s then s else s @ [x])"

definition array_from_set :: "jsval list \<Rightarrow> jsval list" where
  "array_from_set xs = foldl set_add [] xs"

text \<open>\<open>formatLabel(key)\<close>: \<open>key.replace(/([A-Z])/g, ' $1').replace(/^./, s => s.toUpperCase())\<close>.
  The first pattern matches the letters \<open>A\<close> to \<open>Z\<close> only; the dot of the second matches one
  code unit that is not a line terminator (LF, CR, LS, PS).\<close>

definition is_upper :: "code_unit \<Rightarrow> bool" where
  "is_upper u = (0x41 \<le> u \<and> u \<le> 0x5A)"

definition is_line_terminator :: "code_unit \<Rightarrow> bool" where
  "is_line_terminator u = (u = 0x000A \<or> u = 0x000D \<or> u = 0x2028 \<or> u = 0x2029)"

definition formatLabel :: "(code_unit \<Rightarrow> jsstring) \<Rightarrow> jsstring \<Rightarrow> jsstring" where
  "formatLabel unicode_upper key =
    (let spaced = concat (map (\<lambda>u. if is_upper u then [0x20, u] else [u]) key) in
     case spaced of
       [] \<Rightarrow> []
     | u # us \<Rightarrow> if is_line_terminator u then u # us else toUpperCase unicode_upper u @ us)"

text \<open>The body of \<open>renderChart\<close> that turns the records into labels and datasets
  (the branch on \<open>this.type\<close>).\<close>

definition pie_label :: "jsrecord \<Rightarrow> jsval" where
  "pie_label d =
    js_or (js_or (js_or (js_or (get_prop d (utf16 ''status'')) (get_prop d (utf16 ''type'')))
      (get_prop d (utf16 ''name''))) (get_prop d (utf16 ''label''))) (JStr (utf16 ''Unknown''))"

definition pie_value :: "jsrecord \<Rightarrow> jsval" where
  "pie_value d =
    js_or (js_or (js_or (get_prop d (utf16 ''count'')) (get_prop d (utf16 ''value'')))
      (get_prop d (utf16 ''percentage''))) (JNum 0)"

definition series_label :: "jsrecord \<Rightarrow> jsval" where
  "series_label d =
    js_or (js_or (js_or (get_prop d (utf16 ''month'')) (get_prop d (utf16 ''date'')))
      (get_prop d (utf16 ''period''))) (JStr [])"

definition numericFields :: "jsrecord list \<Rightarrow> jsstring list" where
  "numericFields recs =
    filter (\<lambda>k. k \<noteq> utf16 ''month'' \<and> k \<noteq> utf16 ''date'' \<and> k \<noteq> utf16 ''period''
                \<and> k \<noteq> utf16 ''label'')
      (object_keys (case recs of [] \<Rightarrow> [] | d # _ \<Rightarrow> d))"

definition series_dataset ::
  "(code_unit \<Rightarrow> jsstring) \<Rightarrow> chart_kind \<Rightarrow> jsrecord list \<Rightarrow> nat \<times> jsstring \<Rightarrow> dataset" where
  "series_dataset unicode_upper k recs = (\<lambda>(idx, key).
    \<lparr> ds_label = Some (formatLabel unicode_upper key),
      ds_data = map (\<lambda>d. js_or (get_prop d key) (JNum 0)) recs,
      borderColor = OneColor (getColor idx 1),
      backgroundColor = OneColor (if k = Bar then getColor idx (to_double 0.7)
                                  else getColor idx (to_double 0.1)),
      fill = Some (k = Line),
      tension = Some (to_double 0.3),
      borderWidth = 2 \<rparr>)"

definition chart_data ::
  "(code_unit \<Rightarrow> jsstring) \<Rightarrow> chart_kind \<Rightarrow> jsrecord list \<Rightarrow> jsval list \<times> dataset list" where
  "chart_data unicode_upper k recs =
    (if k = Pie \<or> k = Doughnut then
       (let labels = map pie_label recs in
        (labels,
         [\<lparr> ds_label = None,
            ds_data = map pie_value recs,
            borderColor = ColorList (generateColors (length labels) 1),
            backgroundColor = ColorList (generateColors (length labels) (to_double 0.7)),
            fill = None,
            tension = None,
            borderWidth = 2 \<rparr>]))
     else
       (filter truthy (array_from_set (map series_label recs)),
        map (series_dataset unicode_upper k recs) (enumerate 0 (numericFields recs))))"

definition getChartOptions :: "chart_kind \<Rightarrow> jsstring \<Rightarrow> chart_options" where
  "getChartOptions k ttl =
    \<lparr> responsive = True, maintainAspectRatio = True, legend_display = True,
      legend_position = utf16 ''top'', title_display = (ttl \<noteq> []), title_text = ttl,
      title_font_size = 14,
      scales_y_beginAtZero = (if k = Line \<or> k = Bar then Some True else None) \<rparr>"

section \<open>Chart renderer: the drawing surface and the charting engine\<close>

text \<open>
  The browser side of \<open>renderChart\<close>: the ids of the elements the document holds, and the
  charting engine's registry of live charts (Chart.js \<open>instances\<close>). The engine is an external
  library; what is written here is its contract: \<open>new Chart\<close> registers a chart under a fresh
  id and refuses a canvas that is already in use, \<open>destroy\<close> removes a chart from the
  registry (and does nothing for a chart that is no longer there), \<open>Chart.getChart\<close> returns
  the registered chart of a canvas. A canvas is named by its element id.
\<close>

record chart =
  chart_id :: nat
  chart_canvas :: jsstring
  chart_config :: chart_config

record browser =
  dom_ids :: "jsstring set"
  instances :: "chart list"
  next_chart_id :: nat

datatype js_error = CanvasInUse nat | SecurityError | SyntaxError

definition destroy :: "nat \<Rightarrow> browser \<Rightarrow> browser" where
  "destroy h b = b\<lparr>instances := filter (\<lambda>ch. chart_id ch \<noteq> h) (instances b)\<rparr>"

definition getChart :: "browser \<Rightarrow> jsstring \<Rightarrow> chart option" where
  "getChart b cv = find (\<lambda>ch. chart_canvas ch = cv) (rev (instances b))"

definition new_Chart :: "jsstring \<Rightarrow> chart_config \<Rightarrow> browser \<Rightarrow> js_error + (nat \<times> browser)" where
  "new_Chart cv cfg b =
    (case getChart b cv of
       Some ch \<Rightarrow> Inl (CanvasInUse (chart_id ch))
     | None \<Rightarrow>
         Inr (next_chart_id b,
              b\<lparr>instances := instances b @
                   [\<lparr>chart_id = next_chart_id b, chart_canvas = cv, chart_config = cfg\<rparr>],
                 next_chart_id := Suc (next_chart_id b)\<rparr>))"

record charts_component =
  data :: "jsrecord list"
  ctype :: chart_kind
  title :: jsstring
  chartId :: jsstring
  chartInstance :: "nat option"

text \<open>The surface of a component: the element id \<open>(this.chartId || this.title) + '_chart'\<close>.\<close>

definition surface :: "charts_component \<Rightarrow> jsstring" where
  "surface c = (if chartId c \<noteq> [] then chartId c else title c) @ (utf16 ''_chart'')"

text \<open>The two destroy steps of \<open>renderChart\<close>: the component's own handle, then whatever
  chart the registry still holds for the canvas.\<close>

definition destroy_existing :: "charts_component \<Rightarrow> browser \<Rightarrow> charts_component \<times> browser" where
  "destroy_existing c b =
    (let (c1, b1) = (case chartInstance c of
                       Some h \<Rightarrow> (c\<lparr>chartInstance := None\<rparr>, destroy h b)
                     | None \<Rightarrow> (c, b));
         b2 = (case getChart b1 (surface c) of
                 Some existingChart \<Rightarrow> destroy (chart_id existingChart) b1
               | None \<Rightarrow> b1)
     in (c1, b2))"

definition renderChart ::
  "(code_unit \<Rightarrow> jsstring) \<Rightarrow> charts_component \<Rightarrow> browser
    \<Rightarrow> js_error + (charts_component \<times> browser)" where
  "renderChart unicode_upper c b =
    (if surface c \<notin> dom_ids b then Inr (c, b)
     else
       (let (c1, b2) = destroy_existing c b;
            (labels, datasets) = chart_data unicode_upper (ctype c) (data c);
            cfg = \<lparr> cfg_type = ctype c, cfg_labels = labels, cfg_datasets = datasets,
                    cfg_options = getChartOptions (ctype c) (title c) \<rparr>
        in case new_Chart (surface c) cfg b2 of
             Inl e \<Rightarrow> Inl e
           | Inr (h, b3) \<Rightarrow> Inr (c1\<lparr>chartInstance := Some h\<rparr>, b3)))"

text \<open>A sequence of render calls of one component: before each call the inputs \<open>data\<close> and
  \<open>type\<close> may have changed (\<open>ngOnChanges\<close>); the surface stays the same.\<close>

fun render_calls ::
  "(code_unit \<Rightarrow> jsstring) \<Rightarrow> (jsrecord list \<times> chart_kind) list \<Rightarrow> charts_component \<Rightarrow> browser
    \<Rightarrow> js_error + (charts_component \<times> browser)" where
  "render_calls unicode_upper [] c b = Inr (c, b)"
| "render_calls unicode_upper ((d, k) # rest) c b =
    (case renderChart unicode_upper (c\<lparr>data := d, ctype := k\<rparr>) b of
       Inl e \<Rightarrow> Inl e
     | Inr (c', b') \<Rightarrow> render_calls unicode_upper rest c' b')"

text \<open>The live charts bound to a canvas.\<close>

definition live_on :: "browser \<Rightarrow> jsstring \<Rightarrow> chart list" where
  "live_on b cv = filter (\<lambda>ch. chart_canvas ch = cv) (instances b)"

section \<open>Chart renderer: the two readings of "first of the fields"\<close>

text \<open>What the \<open>||\<close> chains of \<open>renderChart\<close> compute: the value of the first key, in the given
  order, whose value on the record is truthy; the default when there is none.\<close>

fun first_truthy :: "jsstring list \<Rightarrow> jsval \<Rightarrow> jsrecord \<Rightarrow> jsval" where
  "first_truthy [] dflt d = dflt"
| "first_truthy (k # ks) dflt d =
    (if truthy (get_prop d k) then get_prop d k else first_truthy ks dflt d)"

text \<open>The specification's wording, "the first present of the fields": the value of the first
  key, in the given order, that the record has, whatever that value is; the default when the
  record has none of the keys.\<close>

fun spec_first_present :: "jsstring list \<Rightarrow> jsval \<Rightarrow> jsrecord \<Rightarrow> jsval" where
  "spec_first_present [] dflt d = dflt"
| "spec_first_present (k # ks) dflt d =
    (case map_of d k of Some v \<Rightarrow> v | None \<Rightarrow> spec_first_present ks dflt d)"

section \<open>Structured text\<close>

text \<open>A parsed JSON text (the session blob, a visualization payload).\<close>

datatype json =
  JsonNull | JsonBool bool | JsonNum rat | JsonStr jsstring
  | JsonArr "json list" | JsonObj "(jsstring \<times> json) list"

section \<open>Application shell: reading the session list\<close>

text \<open>The browser's \<open>localStorage\<close>: a string-keyed store of strings. Reading it can be
  refused by the browser (a \<open>SecurityError\<close>), which is \<open>accessible = False\<close>.\<close>

record local_storage =
  accessible :: bool
  items :: "jsstring \<rightharpoonup> jsstring"

definition getItem :: "local_storage \<Rightarrow> jsstring \<Rightarrow> js_error + jsstring option" where
  "getItem ls k = (if accessible ls then Inr (items ls k) else Inl SecurityError)"

record app_component =
  isHealthy :: bool
  selectedLanguage :: jsstring
  showHistory :: bool
  sessions :: json

text \<open>The body of the \<open>try\<close> block of \<open>refreshSessions\<close>. \<open>JSON.parse\<close> is the platform's
  parser, a parameter here: \<open>None\<close> is its \<open>SyntaxError\<close>. An empty string is falsy, so it
  is not parsed.\<close>

definition refreshSessions_try ::
  "(jsstring \<Rightarrow> json option) \<Rightarrow> local_storage \<Rightarrow> js_error + json" where
  "refreshSessions_try parse ls =
    (case getItem ls (utf16 ''mining_chat_sessions_v1'') of
       Inl e \<Rightarrow> Inl e
     | Inr raw \<Rightarrow>
         (case raw of
            None \<Rightarrow> Inr (JsonArr [])
          | Some r \<Rightarrow>
              if r \<noteq> [] then (case parse r of None \<Rightarrow> Inl SyntaxError | Some v \<Rightarrow> Inr v)
              else Inr (JsonArr [])))"

text \<open>\<open>refreshSessions\<close>: the \<open>try\<close> block, and the \<open>catch\<close> that stores the empty list.
  The result is a sum so that a fault escaping the method would be an \<open>Inl\<close>.\<close>

definition refreshSessions ::
  "(jsstring \<Rightarrow> json option) \<Rightarrow> local_storage \<Rightarrow> app_component \<Rightarrow> js_error + app_component" where
  "refreshSessions parse ls app =
    (case refreshSessions_try parse ls of
       Inr v \<Rightarrow> Inr (app\<lparr>sessions := v\<rparr>)
     | Inl e \<Rightarrow> Inr (app\<lparr>sessions := JsonArr []\<rparr>))"

section \<open>Conversation: messages and sessions\<close>

datatype role = User | Assistant

record audio_descriptor =
  audio_success :: bool
  audio_base64 :: "jsstring option"

text \<open>A \<open>ChatMessage\<close>. The persisted \<open>ChatMessageRecord\<close> has the same fields, its timestamp
  being the ISO text of the same instant; instants are milliseconds.\<close>

record chat_message =
  role :: role
  content :: jsstring
  timestamp :: nat
  visualizations :: "json option"
  recommendations :: "jsstring list option"
  audio :: "audio_descriptor option"

record chat_session =
  session_id :: jsstring
  session_title :: jsstring
  createdAt :: nat
  updatedAt :: nat
  session_language :: jsstring
  session_messages :: "chat_message list"

section \<open>Session store\<close>

text \<open>The persisted collection, most recently created first. The service that owns it
  (\<open>HistoryService\<close>) is not among the sources; its four operations used by the controller
  follow section 4.1 of the specification. The identifier a new session gets and the current
  instant come from the environment and are arguments.\<close>

fun update_first :: "('a \<Rightarrow> bool) \<Rightarrow> ('a \<Rightarrow> 'a) \<Rightarrow> 'a list \<Rightarrow> 'a list" where
  "update_first P f [] = []"
| "update_first P f (x # xs) = (if P x then f x # xs else x # update_first P f xs)"

text \<open>Modelled from the spec: \<open>HistoryService.create\<close>, absent from the sources.
  "generates id and timestamps, inserts at the head of the persisted collection, returns the
  new Session"; a blank title gives the title \<open>New chat\<close>.\<close>

definition history_create ::
  "jsstring \<Rightarrow> jsstring \<Rightarrow> jsstring \<Rightarrow> nat \<Rightarrow> chat_session list \<Rightarrow> chat_session \<times> chat_session list" where
  "history_create ttl lang new_id now st =
    (let s = \<lparr> session_id = new_id,
                session_title = (if trim ttl = [] then (utf16 ''New chat'') else ttl),
                createdAt = now, updatedAt = now, session_language = lang,
                session_messages = [] \<rparr>
     in (s, s # st))"

text \<open>Modelled from the spec: \<open>HistoryService.appendMessage\<close>, absent from the sources.
  "no-op (silently ignored, not an error) if sessionId is unknown; otherwise appends and bumps
  updatedAt".\<close>

definition history_appendMessage ::
  "jsstring \<Rightarrow> chat_message \<Rightarrow> nat \<Rightarrow> chat_session list \<Rightarrow> chat_session list" where
  "history_appendMessage sid m now st =
    update_first (\<lambda>s. session_id s = sid)
      (\<lambda>s. s\<lparr>session_messages := session_messages s @ [m], updatedAt := now\<rparr>) st"

text \<open>Modelled from the spec: \<open>HistoryService.rename\<close>, absent from the sources.
  "trims whitespace; if the trimmed title is empty, the existing title is retained (rename is a
  no-op on blank input), but updatedAt still advances".\<close>

definition history_rename ::
  "jsstring \<Rightarrow> jsstring \<Rightarrow> nat \<Rightarrow> chat_session list \<Rightarrow> chat_session list" where
  "history_rename sid newTitle now st =
    update_first (\<lambda>s. session_id s = sid)
      (\<lambda>s. s\<lparr>session_title := (if trim newTitle = [] then session_title s else trim newTitle),
             updatedAt := now\<rparr>) st"


section \<open>Conversation controller\<close>

record chat_component =
  language :: jsstring
  messages :: "chat_message list"
  userInput :: jsstring
  isLoading :: bool
  includeAudio :: bool
  currentSession :: "chat_session option"

text \<open>What the controller asks of the session store, in order.\<close>

datatype history_call =
  HCreate jsstring jsstring | HAppendMessage jsstring chat_message | HRename jsstring jsstring

text \<open>The controller with its collaborators: the persisted session collection, the calls made
  to the session store, the queries handed to the query service
  (\<open>(text, language, audio requested)\<close>) and the payloads handed to the audio adapter.
  Every handler runs to completion at one instant \<open>now\<close>; \<open>scrollToBottom\<close>, a deferred
  change of the view's scroll position, is left out.\<close>

record chat_world =
  chat :: chat_component
  history :: "chat_session list"
  history_calls :: "history_call list"
  sent_queries :: "(jsstring \<times> jsstring \<times> bool) list"
  played_audio :: "jsstring option list"

definition plain_message :: "role \<Rightarrow> jsstring \<Rightarrow> nat \<Rightarrow> chat_message" where
  "plain_message r txt now =
    \<lparr> role = r, content = txt, timestamp = now, visualizations = None,
      recommendations = None, audio = None \<rparr>"

definition greeting :: jsstring where
  "greeting = utf16 ''Hello! I'' @ [0x27] @ utf16 ''m your Mining Intelligence Assistant. Ask me about equipment status, production efficiency, safety incidents, or get management recommendations.''"

text \<open>\<open>ngOnInit\<close>: the greeting is pushed to the in-memory list only.\<close>

definition ngOnInit :: "nat \<Rightarrow> chat_world \<Rightarrow> chat_world" where
  "ngOnInit now w =
    w\<lparr>chat := (chat w)\<lparr>messages := messages (chat w) @ [plain_message Assistant greeting now]\<rparr>\<rparr>"

text \<open>\<open>sendMessage\<close>, from the user message to the persisted record of it: push to the
  in-memory list, create the session if there is none, append to the session.\<close>

definition persist_user_message :: "nat \<Rightarrow> jsstring \<Rightarrow> chat_world \<Rightarrow> chat_message \<times> chat_world" where
  "persist_user_message now new_id w =
    (let userMessage = plain_message User (userInput (chat w)) now;
         w1 = w\<lparr>chat := (chat w)\<lparr>messages := messages (chat w) @ [userMessage]\<rparr>\<rparr>;
         (s, w2) =
           (case currentSession (chat w1) of
              None \<Rightarrow>
                (let (s, st) = history_create (userInput (chat w1)) (language (chat w1)) new_id now
                                 (history w1)
                 in (s, w1\<lparr>chat := (chat w1)\<lparr>currentSession := Some s\<rparr>,
                          history := st,
                          history_calls := history_calls w1 @
                            [HCreate (userInput (chat w1)) (language (chat w1))]\<rparr>))
            | Some s \<Rightarrow> (s, w1))
     in (userMessage,
         w2\<lparr>history := history_appendMessage (session_id s) userMessage now (history w2),
            history_calls := history_calls w2 @ [HAppendMessage (session_id s) userMessage]\<rparr>))"

text \<open>\<open>sendMessage\<close>, the auto-title step:
  \<open>if (this.currentSession && this.messages.length === 2) this.history.rename(...)\<close>.\<close>

definition auto_title :: "chat_message \<Rightarrow> nat \<Rightarrow> chat_world \<Rightarrow> chat_world" where
  "auto_title userMessage now w =
    (case currentSession (chat w) of
       None \<Rightarrow> w
     | Some s \<Rightarrow>
         if length (messages (chat w)) = 2
         then w\<lparr>history := history_rename (session_id s) (take 30 (content userMessage)) now (history w),
                history_calls := history_calls w @
                  [HRename (session_id s) (take 30 (content userMessage))]\<rparr>
         else w)"

text \<open>\<open>sendMessage\<close>: the guard, the two steps above, then the input is cleared, the loading
  flag is set and the query goes to the query service. The service answers later, through
  one of the two callbacks below.\<close>

definition sendMessage :: "nat \<Rightarrow> jsstring \<Rightarrow> chat_world \<Rightarrow> chat_world" where
  "sendMessage now new_id w =
    (if trim (userInput (chat w)) = [] \<or> isLoading (chat w) then w
     else
       (let (userMessage, w1) = persist_user_message now new_id w;
            w2 = auto_title userMessage now w1;
            query = userInput (chat w2);
            w3 = w2\<lparr>chat := (chat w2)\<lparr>userInput := [], isLoading := True\<rparr>\<rparr>
        in w3\<lparr>sent_queries := sent_queries w3 @
                 [(query, language (chat w3), includeAudio (chat w3))]\<rparr>))"

text \<open>The structured response of the query service.\<close>

record api_response =
  resp_success :: bool
  resp_answer :: jsstring
  resp_visualizations :: "json option"
  resp_recommendations :: "jsstring list option"
  resp_audio :: "audio_descriptor option"

text \<open>The \<open>next\<close> callback: a structured response, successful or not.\<close>

definition sendQuery_next :: "api_response \<Rightarrow> nat \<Rightarrow> chat_world \<Rightarrow> chat_world" where
  "sendQuery_next response now w =
    (let w0 = w\<lparr>chat := (chat w)\<lparr>isLoading := False\<rparr>\<rparr> in
     if resp_success response then
       (let assistantMessage =
              \<lparr> role = Assistant, content = resp_answer response, timestamp = now,
                visualizations = resp_visualizations response,
                recommendations = resp_recommendations response,
                audio = resp_audio response \<rparr>;
            w1 = w0\<lparr>chat := (chat w0)\<lparr>messages := messages (chat w0) @ [assistantMessage]\<rparr>\<rparr>;
            w2 = (case currentSession (chat w1) of
                    None \<Rightarrow> w1
                  | Some s \<Rightarrow>
                      w1\<lparr>history := history_appendMessage (session_id s) assistantMessage now
                                       (history w1),
                         history_calls := history_calls w1 @
                           [HAppendMessage (session_id s) assistantMessage]\<rparr>)
        in case resp_audio response of
             None \<Rightarrow> w2
           | Some a \<Rightarrow>
               if includeAudio (chat w2) \<and> audio_success a
               then w2\<lparr>played_audio := played_audio w2 @ [audio_base64 a]\<rparr>
               else w2)
     else
       w0\<lparr>chat := (chat w0)\<lparr>messages := messages (chat w0) @
         [plain_message Assistant (utf16 ''Sorry, I encountered an error. Please try again.'') now]\<rparr>\<rparr>)"

text \<open>The placeholder analytics of the fallback message.\<close>

definition fallback_visualizations :: json where
  "fallback_visualizations =
    JsonObj
      [(utf16 ''kpis'', JsonObj
          [(utf16 ''total_incidents'', JsonNum 5), (utf16 ''critical_alerts'', JsonNum 2),
           (utf16 ''avg_efficiency'', JsonNum 87), (utf16 ''monthly_production'', JsonNum 12500)]),
       (utf16 ''charts'', JsonObj
          [(utf16 ''equipment_status'', JsonArr
              [JsonObj [(utf16 ''status'', JsonStr (utf16 ''Operational'')), (utf16 ''count'', JsonNum 45)],
               JsonObj [(utf16 ''status'', JsonStr (utf16 ''Maintenance'')), (utf16 ''count'', JsonNum 8)],
               JsonObj [(utf16 ''status'', JsonStr (utf16 ''Critical'')), (utf16 ''count'', JsonNum 2)]]),
           (utf16 ''production_trend'', JsonArr
              [JsonObj [(utf16 ''month'', JsonStr (utf16 ''Jan'')), (utf16 ''production'', JsonNum 12000)],
               JsonObj [(utf16 ''month'', JsonStr (utf16 ''Feb'')), (utf16 ''production'', JsonNum 13500)],
               JsonObj [(utf16 ''month'', JsonStr (utf16 ''Mar'')), (utf16 ''production'', JsonNum 12800)]])])]"

definition fallback_message :: "jsstring \<Rightarrow> nat \<Rightarrow> chat_message" where
  "fallback_message query now =
    \<lparr> role = Assistant,
      content = utf16 ''I analyzed your query about '' @ [0x22] @ query @ [0x22] @
                utf16 ''. Here are the current mining operations insights:'',
      timestamp = now,
      visualizations = Some fallback_visualizations,
      recommendations = Some
        [(utf16 ''Schedule maintenance for equipment with >5000 operating hours''),
         (utf16 ''Review safety protocols for incident-prone areas''),
         (utf16 ''Optimize shift schedules to improve efficiency'')],
      audio = None \<rparr>"

text \<open>The \<open>error\<close> callback: the query service failed at the transport level. \<open>query\<close> is
  the text the callback's closure captured when the query was sent.\<close>

definition sendQuery_error :: "jsstring \<Rightarrow> nat \<Rightarrow> chat_world \<Rightarrow> chat_world" where
  "sendQuery_error query now w =
    (let w0 = w\<lparr>chat := (chat w)\<lparr>isLoading := False\<rparr>\<rparr>
     in w0\<lparr>chat := (chat w0)\<lparr>messages := messages (chat w0) @ [fallback_message query now]\<rparr>\<rparr>)"

definition clearChat :: "nat \<Rightarrow> chat_world \<Rightarrow> chat_world" where
  "clearChat now w =
    w\<lparr>chat := (chat w)\<lparr>messages :=
      [plain_message Assistant (utf16 ''Chat cleared. How can I help you with mining operations today?'') now]\<rparr>\<rparr>"

text \<open>The renames among a list of calls to the session store.\<close>

fun renames_of :: "history_call list \<Rightarrow> (jsstring \<times> jsstring) list" where
  "renames_of [] = []"
| "renames_of (HRename sid ttl # cs) = (sid, ttl) # renames_of cs"
| "renames_of (_ # cs) = renames_of cs"


text \<open>The component as its field initialisers leave it, with an empty session store.\<close>

definition initial_world :: chat_world where
  "initial_world =
    \<lparr> chat = \<lparr> language = utf16 ''en'', messages = [], userInput = [], isLoading = False,
               includeAudio = True, currentSession = None \<rparr>,
      history = [], history_calls = [], sent_queries = [], played_audio = [] \<rparr>"

text \<open>The user types into the input box.\<close>

definition type_input :: "jsstring \<Rightarrow> chat_world \<Rightarrow> chat_world" where
  "type_input txt w = w\<lparr>chat := (chat w)\<lparr>userInput := txt\<rparr>\<rparr>"

text \<open>A table for \<open>toUpperCase\<close> that leaves every code unit beyond ASCII as it is. It
  stands for the platform's table in the examples, whose strings are ASCII.\<close>

definition ascii_upper_only :: "code_unit \<Rightarrow> jsstring" where
  "ascii_upper_only u = [u]"

section \<open>Code units of literals\<close>

lemma of_char_less_256: "(of_char c :: nat) < 256"
proof -
  have "(of_char c :: nat) mod 256 < 256" by simp
  then show ?thesis by (simp only: of_char_mod_256)
qed

lemma code_unit_of_char_eq_iff:
  "(of_nat (of_char c) :: code_unit) = of_nat (of_char d) \<longleftrightarrow> c = d"
proof
  assume "(of_nat (of_char c) :: code_unit) = of_nat (of_char d)"
  then have "unat (of_nat (of_char c) :: code_unit) = unat (of_nat (of_char d) :: code_unit)"
    by simp
  then have "(of_char c :: nat) mod 2 ^ 16 = of_char d mod 2 ^ 16"
    by (simp add: unat_of_nat)
  moreover have "(of_char c :: nat) < 2 ^ 16"
    by (rule less_trans [OF of_char_less_256]) simp
  moreover have "(of_char d :: nat) < 2 ^ 16"
    by (rule less_trans [OF of_char_less_256]) simp
  ultimately have "(of_char c :: nat) = of_char d"
    by simp
  then show "c = d" by simp
next
  assume "c = d" then show "(of_nat (of_char c) :: code_unit) = of_nat (of_char d)" by simp
qed

lemma utf16_eq_iff [simp]: "utf16 a = utf16 b \<longleftrightarrow> a = b"
proof (induction a arbitrary: b)
  case Nil
  then show ?case by (auto simp: utf16_def)
next
  case (Cons x xs)
  then show ?case
    by (cases b) (auto simp: utf16_def code_unit_of_char_eq_iff)
qed

lemma utf16_Nil [simp]: "utf16 [] = []"
  by (simp add: utf16_def)

lemma utf16_eq_Nil [simp]: "utf16 s = [] \<longleftrightarrow> s = []" "[] = utf16 s \<longleftrightarrow> s = []"
  by (auto simp: utf16_def)

lemma length_utf16 [simp]: "length (utf16 s) = length s"
  by (simp add: utf16_def)

lemma take_utf16 [simp]: "take n (utf16 s) = utf16 (take n s)"
  by (simp add: utf16_def take_map)

lemma utf16_append [simp]: "utf16 a @ utf16 b = utf16 (a @ b)"
  by (simp add: utf16_def)

lemma utf16_mem_map [simp]: "utf16 k \<in> utf16 ` A \<longleftrightarrow> k \<in> A"
  by auto

section \<open>Colour assignment\<close>

lemma additionalColors_eq:
  "additionalColors alpha i count acc = acc @ map (\<lambda>j. Hsla (hue j) 70 65 alpha) [i..<count]"
proof (induction alpha i count acc rule: additionalColors.induct)
  case (1 alpha i count acc)
  show ?case
  proof (cases "i < count")
    case True
    then show ?thesis
      using "1.IH" by (subst additionalColors.simps) (simp add: upt_conv_Cons)
  next
    case False
    then show ?thesis
      by (subst additionalColors.simps) simp
  qed
qed

lemma length_palette8: "length (palette8 alpha) = 8"
  by (simp add: palette8_def)

lemma generateColors_large:
  "8 < n \<Longrightarrow> generateColors n alpha = palette8 alpha @ map (\<lambda>j. Hsla (hue j) 70 65 alpha) [8..<n]"
  by (simp add: generateColors_def Let_def length_palette8 additionalColors_eq)

lemma generateColors_small:
  "n \<le> 8 \<Longrightarrow> generateColors n alpha = take n (palette8 alpha)"
  by (simp add: generateColors_def Let_def length_palette8)

lemma length_generateColors: "length (generateColors n alpha) = n"
proof (cases "8 < n")
  case True
  then show ?thesis by (simp add: generateColors_large length_palette8)
next
  case False
  then show ?thesis by (simp add: generateColors_small length_palette8)
qed

text \<open>
  Claim C8. Categorical colour generation for \<open>n\<close> series (\<open>n\<close> is the length of an array,
  so below \<open>2^32\<close>) returns exactly \<open>n\<close> colours; the first \<open>min n 8\<close> are the fixed 8-colour
  palette in order, and every further colour \<open>i\<close> (for \<open>8 \<le> i < n\<close>) is the HSLA colour whose
  hue is the number that \<open>(i * 137.508) % 360\<close> evaluates to. Series colouring for index \<open>i\<close>
  always returns entry \<open>i mod 6\<close> of the fixed 6-colour palette. Both are functions of their
  arguments alone.
\<close>

theorem color_assignment:
  assumes "n < 2 ^ 32"
  shows "length (generateColors n alpha) = n
   \<and> take (min n 8) (generateColors n alpha) = take (min n 8) (palette8 alpha)
   \<and> (\<forall>i. 8 \<le> i \<and> i < n \<longrightarrow>
        generateColors n alpha ! i
          = Hsla (js_rem (to_double (of_nat i * to_double 137.508)) 360) 70 65 alpha)
   \<and> length (palette6 alpha) = 6
   \<and> getColor i alpha = Some (palette6 alpha ! (i mod 6))"
proof (intro conjI allI impI)
  show "length (generateColors n alpha) = n"
    by (rule length_generateColors)
  show "take (min n 8) (generateColors n alpha) = take (min n 8) (palette8 alpha)"
  proof (cases "8 < n")
    case True
    then show ?thesis by (simp add: generateColors_large length_palette8)
  next
    case False
    then show ?thesis by (simp add: generateColors_small)
  qed
  show "length (palette6 alpha) = 6"
    by (simp add: palette6_def)
  show "getColor i alpha = Some (palette6 alpha ! (i mod 6))"
    by (simp add: getColor_def Let_def palette6_def)
next
  fix i assume h: "8 \<le> i \<and> i < n"
  then have "generateColors n alpha ! i = map (\<lambda>j. Hsla (hue j) 70 65 alpha) [8..<n] ! (i - 8)"
    by (simp add: generateColors_large nth_append length_palette8)
  also have "\<dots> = Hsla (hue i) 70 65 alpha"
    using h by auto
  finally show "generateColors n alpha ! i
      = Hsla (js_rem (to_double (of_nat i * to_double 137.508)) 360) 70 65 alpha"
    by (simp only: hue_def)
qed

text \<open>At \<open>i = 9\<close> the hue is the double that prints as \<open>157.57200000000012\<close>: the product
  \<open>9 * 137.508\<close> is rounded, so the hue is not \<open>157.572\<close>.\<close>

theorem color_assignment_witness:
  "(10::nat) < 2 ^ 32
   \<and> length (generateColors 10 1) = 10
   \<and> generateColors 10 1 ! 9 = Hsla (10828265388245 / 68719476736) 70 65 1
   \<and> \<bar>10828265388245 / 68719476736 - (157.57200000000012::rat)\<bar> < 1 / 2 ^ 46
   \<and> 10828265388245 / 68719476736 \<noteq> (157.572::rat)
   \<and> getColor 7 1 = Some (Rgba 33 150 243 1)"
proof -
  have n: "(10::nat) < 2 ^ 32"
    by simp
  have r: "js_rem (to_double (of_nat 9 * to_double 137.508)) 360 = 10828265388245 / 68719476736"
    by code_simp
  have p: "palette6 1 ! (7 mod 6) = Rgba 33 150 243 1"
    by (simp add: palette6_def)
  have d: "\<bar>10828265388245 / 68719476736 - (157.57200000000012::rat)\<bar> < 1 / 2 ^ 46"
    by simp
  have e: "10828265388245 / 68719476736 \<noteq> (157.572::rat)"
    by simp
  note t = color_assignment [OF n, of 1 7]
  from t have 1: "length (generateColors 10 1) = 10"
    by blast
  from t have "generateColors 10 1 ! 9
      = Hsla (js_rem (to_double (of_nat 9 * to_double 137.508)) 360) 70 65 1"
    by auto
  then have 2: "generateColors 10 1 ! 9 = Hsla (10828265388245 / 68719476736) 70 65 1"
    by (simp only: r)
  from t have "getColor 7 1 = Some (palette6 1 ! (7 mod 6))"
    by blast
  then have 3: "getColor 7 1 = Some (Rgba 33 150 243 1)"
    by (simp only: p)
  from n 1 2 d e 3 show ?thesis
    by blast
qed

section \<open>Chart renderer: labels and series\<close>

lemma pie_label_first_truthy:
  "pie_label d = first_truthy [utf16 ''status'', utf16 ''type'', utf16 ''name'', utf16 ''label''] (JStr (utf16 ''Unknown'')) d"
  by (simp add: pie_label_def js_or_def)

lemma pie_value_first_truthy:
  "pie_value d = first_truthy [utf16 ''count'', utf16 ''value'', utf16 ''percentage''] (JNum 0) d"
  by (simp add: pie_value_def js_or_def)

lemma series_label_first_truthy:
  "series_label d = first_truthy [utf16 ''month'', utf16 ''date'', utf16 ''period''] (JStr []) d"
  by (simp add: series_label_def js_or_def)

lemma remdups_snoc:
  "remdups (xs @ [y]) = filter (\<lambda>x. x \<noteq> y) (remdups xs) @ [y]"
  by (induction xs) auto

lemma foldl_set_add:
  "foldl set_add acc xs = acc @ filter (\<lambda>x. x \<notin> set acc) (rev (remdups (rev xs)))"
proof (induction xs arbitrary: acc)
  case Nil
  then show ?case by simp
next
  case (Cons y ys)
  have R: "rev (remdups (rev (y # ys))) = y # filter (\<lambda>x. x \<noteq> y) (rev (remdups (rev ys)))"
    by (simp add: remdups_snoc rev_filter)
  show ?case
  proof (cases "y \<in> set acc")
    case True
    then have "foldl set_add acc (y # ys) = foldl set_add acc ys"
      by (simp add: set_add_def)
    also have "\<dots> = acc @ filter (\<lambda>x. x \<notin> set acc) (rev (remdups (rev ys)))"
      by (rule Cons.IH)
    also have "filter (\<lambda>x. x \<notin> set acc) (rev (remdups (rev ys)))
        = filter (\<lambda>x. x \<notin> set acc) (rev (remdups (rev (y # ys))))"
      using True unfolding R by (auto intro: filter_cong)
    finally show ?thesis .
  next
    case False
    then have "foldl set_add acc (y # ys) = foldl set_add (acc @ [y]) ys"
      by (simp add: set_add_def)
    also have "\<dots> = (acc @ [y]) @ filter (\<lambda>x. x \<notin> set (acc @ [y])) (rev (remdups (rev ys)))"
      by (rule Cons.IH)
    also have "\<dots> = acc @ filter (\<lambda>x. x \<notin> set acc) (rev (remdups (rev (y # ys))))"
      using False unfolding R by (auto intro: filter_cong)
    finally show ?thesis .
  qed
qed

lemma array_from_set_eq: "array_from_set xs = rev (remdups (rev xs))"
  by (simp add: array_from_set_def foldl_set_add)

lemma distinct_array_from_set: "distinct (array_from_set xs)"
  by (simp add: array_from_set_eq)

lemma first_occurrences_Cons:
  "array_from_set (y # ys) = y # filter (\<lambda>x. x \<noteq> y) (array_from_set ys)"
  by (simp add: array_from_set_eq remdups_snoc rev_filter)

lemma subseq_array_from_set: "subseq (array_from_set xs) xs"
proof (induction xs)
  case Nil
  then show ?case by (simp add: array_from_set_def)
next
  case (Cons y ys)
  have "subseq (filter (\<lambda>x. x \<noteq> y) (array_from_set ys)) (array_from_set ys)"
    by simp
  then have "subseq (filter (\<lambda>x. x \<noteq> y) (array_from_set ys)) ys"
    using Cons.IH by (rule subseq_order.trans)
  then show ?case
    by (simp add: first_occurrences_Cons)
qed

text \<open>
  Claim C4, as the code has it. For every record array, the kinds \<open>pie\<close> and \<open>doughnut\<close>
  produce exactly one series; the label of record \<open>i\<close> is the first truthy value among its
  fields \<open>status\<close>, \<open>type\<close>, \<open>name\<close>, \<open>label\<close> (\<open>"Unknown"\<close> when none is truthy) and its value is
  the first truthy value among \<open>count\<close>, \<open>value\<close>, \<open>percentage\<close> (\<open>0\<close> when none is truthy).
  The witness is the specification's example: the records
  \<open>[{status:"Operational",count:45},{status:"Critical",count:2}]\<close> give the labels
  \<open>["Operational","Critical"]\<close> and the single series \<open>[45,2]\<close>.
\<close>

theorem pie_chart_data:
  assumes "k = Pie \<or> k = Doughnut"
  shows "fst (chart_data unicode_upper k recs) =
           map (first_truthy [utf16 ''status'', utf16 ''type'', utf16 ''name'', utf16 ''label''] (JStr (utf16 ''Unknown''))) recs
       \<and> map ds_data (snd (chart_data unicode_upper k recs)) =
           [map (first_truthy [utf16 ''count'', utf16 ''value'', utf16 ''percentage''] (JNum 0)) recs]
       \<and> length (snd (chart_data unicode_upper k recs)) = 1"
  using assms
  by (auto simp: chart_data_def Let_def pie_label_first_truthy pie_value_first_truthy
      simp del: first_truthy.simps)

theorem pie_chart_data_witness:
  "(Pie = Pie \<or> Pie = Doughnut)
   \<and> fst (chart_data ascii_upper_only Pie [[(utf16 ''status'', JStr (utf16 ''Operational'')), (utf16 ''count'', JNum 45)],
                            [(utf16 ''status'', JStr (utf16 ''Critical'')), (utf16 ''count'', JNum 2)]])
       = [JStr (utf16 ''Operational''), JStr (utf16 ''Critical'')]
   \<and> map ds_data (snd (chart_data ascii_upper_only Pie [[(utf16 ''status'', JStr (utf16 ''Operational'')), (utf16 ''count'', JNum 45)],
                            [(utf16 ''status'', JStr (utf16 ''Critical'')), (utf16 ''count'', JNum 2)]]))
       = [[JNum 45, JNum 2]]"
  using pie_chart_data [where k = Pie and unicode_upper = ascii_upper_only and recs = "[[(utf16 ''status'', JStr (utf16 ''Operational'')), (utf16 ''count'', JNum 45)],
                            [(utf16 ''status'', JStr (utf16 ''Critical'')), (utf16 ''count'', JNum 2)]]"]
  by (simp add: get_prop_def)

text \<open>
  With "first present" read as written, the claim fails on a record whose \<open>count\<close> is \<open>0\<close>
  and whose \<open>value\<close> is \<open>7\<close>: \<open>count\<close> is present, so the claimed value is \<open>0\<close>, while
  \<open>d.count || d.value || d.percentage || 0\<close> is \<open>7\<close>.
\<close>

theorem pie_first_present_counterexample:
  "map ds_data (snd (chart_data ascii_upper_only Pie [[(utf16 ''status'', JStr (utf16 ''Idle'')), (utf16 ''count'', JNum 0), (utf16 ''value'', JNum 7)]]))
     \<noteq> [map (spec_first_present [utf16 ''count'', utf16 ''value'', utf16 ''percentage''] (JNum 0))
           [[(utf16 ''status'', JStr (utf16 ''Idle'')), (utf16 ''count'', JNum 0), (utf16 ''value'', JNum 7)]]]"
  by (simp add: chart_data_def pie_value_def js_or_def get_prop_def)

lemma numericFields_eq:
  "numericFields recs =
    (case recs of [] \<Rightarrow> []
     | d # _ \<Rightarrow> filter (\<lambda>x. x \<notin> set [utf16 ''month'', utf16 ''date'', utf16 ''period'', utf16 ''label'']) (object_keys d))"
  by (auto simp: numericFields_def object_keys_def split: list.splits intro: filter_cong)

lemma map_snd_enumerate: "map (\<lambda>p. f (snd p)) (enumerate n xs) = map f xs"
  by (induction xs arbitrary: n) auto

lemma ds_label_series: "ds_label (series_dataset unicode_upper k recs p) = Some (formatLabel unicode_upper (snd p))"
  by (cases p) (simp add: series_dataset_def)

lemma ds_data_series:
  "ds_data (series_dataset unicode_upper k recs p) =
     map (\<lambda>d. if truthy (get_prop d (snd p)) then get_prop d (snd p) else JNum 0) recs"
  by (cases p) (simp add: series_dataset_def js_or_def)

text \<open>
  Claim C5, as the code has it. For every record array, the kinds \<open>line\<close> and \<open>bar\<close>
  produce as labels the truthy values among the per-record values
  \<open>d.month || d.date || d.period || ''\<close> (the first truthy of the three fields), each value
  once, in the order of first occurrence; and one series per key of the first record other than
  \<open>month\<close>, \<open>date\<close>, \<open>period\<close> and \<open>label\<close>, named by \<open>formatLabel\<close> of the key (a space
  before each of \<open>A\<close> to \<open>Z\<close>, then the first code unit in upper case), whose value for each
  record is what the record reads under the key (its own property, or the member of
  \<open>Object.prototype\<close> of that name) when that is truthy and \<open>0\<close> otherwise.
  The witness is the specification's example: \<open>[{month:"Jan",production:12000},
  {month:"Feb",production:13500}]\<close> with kind \<open>line\<close> gives the labels \<open>["Jan","Feb"]\<close> and
  one series, named \<open>Production\<close>, with the values \<open>[12000,13500]\<close>.
\<close>

theorem series_chart_data:
  assumes "k = Line \<or> k = Bar"
  shows "fst (chart_data unicode_upper k recs) =
           filter truthy (rev (remdups (rev
             (map (first_truthy [utf16 ''month'', utf16 ''date'', utf16 ''period''] (JStr [])) recs))))
       \<and> distinct (fst (chart_data unicode_upper k recs))
       \<and> subseq (fst (chart_data unicode_upper k recs))
            (map (first_truthy [utf16 ''month'', utf16 ''date'', utf16 ''period''] (JStr [])) recs)
       \<and> map ds_label (snd (chart_data unicode_upper k recs)) =
           map (\<lambda>key. Some (formatLabel unicode_upper key))
             (case recs of [] \<Rightarrow> []
              | d # _ \<Rightarrow>
                  filter (\<lambda>x. x \<notin> set [utf16 ''month'', utf16 ''date'', utf16 ''period'',
                                         utf16 ''label''])
                    (object_keys d))
       \<and> map ds_data (snd (chart_data unicode_upper k recs)) =
           map (\<lambda>key. map (\<lambda>d. if truthy (get_prop d key) then get_prop d key else JNum 0) recs)
             (case recs of [] \<Rightarrow> []
              | d # _ \<Rightarrow>
                  filter (\<lambda>x. x \<notin> set [utf16 ''month'', utf16 ''date'', utf16 ''period'',
                                         utf16 ''label''])
                    (object_keys d))"
proof -
  let ?raw = "map (first_truthy [utf16 ''month'', utf16 ''date'', utf16 ''period''] (JStr [])) recs"
  have raw: "map series_label recs = ?raw"
    by (simp add: series_label_first_truthy del: first_truthy.simps)
  have k: "\<not> (k = Pie \<or> k = Doughnut)"
    using assms by auto
  have labels: "fst (chart_data unicode_upper k recs) = filter truthy (array_from_set ?raw)"
    using k by (simp add: chart_data_def raw del: first_truthy.simps)
  have sets: "snd (chart_data unicode_upper k recs)
      = map (series_dataset unicode_upper k recs) (enumerate 0 (numericFields recs))"
    using k by (simp add: chart_data_def)
  have 1: "fst (chart_data unicode_upper k recs) = filter truthy (rev (remdups (rev ?raw)))"
    by (simp only: labels array_from_set_eq)
  have 2: "distinct (fst (chart_data unicode_upper k recs))"
    by (simp only: labels distinct_filter distinct_array_from_set)
  have "subseq (filter truthy (array_from_set ?raw)) (array_from_set ?raw)"
    by simp
  then have 3: "subseq (fst (chart_data unicode_upper k recs)) ?raw"
    unfolding labels using subseq_array_from_set by (rule subseq_order.trans)
  have 4: "map ds_label (snd (chart_data unicode_upper k recs)) =
      map (\<lambda>key. Some (formatLabel unicode_upper key)) (numericFields recs)"
    unfolding sets map_map o_def ds_label_series by (rule map_snd_enumerate)
  have 5: "map ds_data (snd (chart_data unicode_upper k recs)) =
      map (\<lambda>key. map (\<lambda>d. if truthy (get_prop d key) then get_prop d key else JNum 0) recs)
        (numericFields recs)"
    unfolding sets map_map o_def ds_data_series by (rule map_snd_enumerate)
  from 1 2 3 4 5 show ?thesis
    by (simp only: numericFields_eq)
qed

theorem series_chart_data_witness:
  "(Line = Line \<or> Line = Bar)
   \<and> fst (chart_data ascii_upper_only Line
          [[(utf16 ''month'', JStr (utf16 ''Jan'')), (utf16 ''production'', JNum 12000)],
           [(utf16 ''month'', JStr (utf16 ''Feb'')), (utf16 ''production'', JNum 13500)]])
       = [JStr (utf16 ''Jan''), JStr (utf16 ''Feb'')]
   \<and> map ds_label (snd (chart_data ascii_upper_only Line
          [[(utf16 ''month'', JStr (utf16 ''Jan'')), (utf16 ''production'', JNum 12000)],
           [(utf16 ''month'', JStr (utf16 ''Feb'')), (utf16 ''production'', JNum 13500)]]))
       = [Some (utf16 ''Production'')]
   \<and> map ds_data (snd (chart_data ascii_upper_only Line
          [[(utf16 ''month'', JStr (utf16 ''Jan'')), (utf16 ''production'', JNum 12000)],
           [(utf16 ''month'', JStr (utf16 ''Feb'')), (utf16 ''production'', JNum 13500)]]))
       = [[JNum 12000, JNum 13500]]"
proof -
  have f: "formatLabel ascii_upper_only (utf16 ''production'') = utf16 ''Production''"
    by (simp add: formatLabel_def utf16_def is_upper_def is_line_terminator_def toUpperCase_def)
  have m: "utf16 ''production'' \<notin> set object_prototype_members"
    "utf16 ''month'' \<notin> set object_prototype_members"
    "utf16 ''date'' \<notin> set object_prototype_members"
    "utf16 ''period'' \<notin> set object_prototype_members"
    by (simp_all add: object_prototype_members_def)
  show ?thesis
    using series_chart_data [where k = Line and unicode_upper = ascii_upper_only and recs =
        "[[(utf16 ''month'', JStr (utf16 ''Jan'')), (utf16 ''production'', JNum 12000)],
          [(utf16 ''month'', JStr (utf16 ''Feb'')), (utf16 ''production'', JNum 13500)]]"]
    by (simp add: get_prop_def object_keys_def f m)
qed

text \<open>
  With "first present" and "0 when absent" read as written, the claim fails on the record
  \<open>{month:"", date:"2024-01", production:null}\<close>: \<open>month\<close> is present and falsy, so the
  claimed labels are empty, while the code moves on to \<open>date\<close>; and \<open>production\<close> is present,
  so the claimed value is \<open>null\<close>, while \<open>d[key] || 0\<close> is \<open>0\<close>.
\<close>

theorem series_first_present_counterexample:
  "fst (chart_data ascii_upper_only Line [[(utf16 ''month'', JStr []), (utf16 ''date'', JStr (utf16 ''2024-01'')), (utf16 ''production'', JNull)]])
     \<noteq> filter truthy (array_from_set
           (map (spec_first_present [utf16 ''month'', utf16 ''date'', utf16 ''period''] JUndefined)
              [[(utf16 ''month'', JStr []), (utf16 ''date'', JStr (utf16 ''2024-01'')), (utf16 ''production'', JNull)]]))
   \<and> map ds_data (snd (chart_data ascii_upper_only Line
          [[(utf16 ''month'', JStr []), (utf16 ''date'', JStr (utf16 ''2024-01'')), (utf16 ''production'', JNull)]]))
     \<noteq> [map (spec_first_present [utf16 ''production''] (JNum 0))
           [[(utf16 ''month'', JStr []), (utf16 ''date'', JStr (utf16 ''2024-01'')), (utf16 ''production'', JNull)]]]"
  by (simp add: chart_data_def series_label_def js_or_def get_prop_def array_from_set_def
      set_add_def numericFields_def object_keys_def series_dataset_def)

section \<open>Chart renderer: one live chart per surface\<close>

lemma live_on_destroy:
  "live_on (destroy h b) cv = filter (\<lambda>ch. chart_id ch \<noteq> h) (live_on b cv)"
  by (auto simp: live_on_def destroy_def intro: filter_cong)

lemma length_live_on_destroy: "length (live_on (destroy h b) cv) \<le> length (live_on b cv)"
  by (simp add: live_on_destroy)

lemma getChart_None: "getChart b cv = None \<longleftrightarrow> live_on b cv = []"
  by (auto simp: getChart_def live_on_def find_None_iff filter_empty_conv)

lemma find_SomeD: "find P xs = Some x \<Longrightarrow> P x \<and> x \<in> set xs"
  by (induction xs) (auto split: if_splits)

lemma getChart_Some: "getChart b cv = Some ch \<Longrightarrow> ch \<in> set (live_on b cv)"
  using find_SomeD [of "\<lambda>ch. chart_canvas ch = cv" "rev (instances b)" ch]
  by (simp add: getChart_def live_on_def)

lemma one_live_destroyed:
  assumes "length (live_on b cv) \<le> 1" and "ch \<in> set (live_on b cv)"
  shows "live_on (destroy (chart_id ch) b) cv = []"
proof -
  from assms obtain "live_on b cv = [ch]"
    by (cases "live_on b cv") auto
  then show ?thesis
    by (simp add: live_on_destroy)
qed

lemma destroy_existing_clears:
  assumes "length (live_on b (surface c)) \<le> 1"
  shows "live_on (snd (destroy_existing c b)) (surface c) = []"
proof -
  define b1 where "b1 = (case chartInstance c of Some h \<Rightarrow> destroy h b | None \<Rightarrow> b)"
  have le: "length (live_on b1 (surface c)) \<le> 1"
    using assms length_live_on_destroy [of _ b "surface c"]
    by (auto simp: b1_def split: option.splits intro: order_trans)
  have snd: "snd (destroy_existing c b) =
      (case getChart b1 (surface c) of Some ex \<Rightarrow> destroy (chart_id ex) b1 | None \<Rightarrow> b1)"
    by (simp add: destroy_existing_def b1_def split: option.splits)
  show ?thesis
  proof (cases "getChart b1 (surface c)")
    case None
    then have "live_on b1 (surface c) = []"
      by (simp add: getChart_None)
    with None show ?thesis by (simp add: snd)
  next
    case (Some ex)
    then show ?thesis
      using one_live_destroyed [OF le getChart_Some [OF Some]] by (simp add: snd)
  qed
qed

lemma destroy_existing_handle:
  "chartInstance (fst (destroy_existing c b)) = None
   \<and> fst (destroy_existing c b) = c\<lparr>chartInstance := None\<rparr>"
  by (cases "chartInstance c") (simp_all add: destroy_existing_def Let_def split: option.splits)

lemma instances_destroy: "set (instances (destroy h b)) \<subseteq> set (instances b)"
  by (auto simp: destroy_def)

lemma handle_not_live_destroy: "h \<notin> chart_id ` set (instances (destroy h b))"
  by (auto simp: destroy_def)

lemma destroy_existing_handle_dead:
  assumes "chartInstance c = Some h"
  shows "h \<notin> chart_id ` set (instances (snd (destroy_existing c b)))"
proof -
  have "set (instances (snd (destroy_existing c b))) \<subseteq> set (instances (destroy h b))"
    using assms instances_destroy
    by (auto simp: destroy_existing_def Let_def split: option.splits)
  then show ?thesis
    using handle_not_live_destroy [of h b] by blast
qed

lemma destroy_existing_frame:
  "dom_ids (snd (destroy_existing c b)) = dom_ids b"
  by (simp add: destroy_existing_def destroy_def Let_def split: option.splits)

lemma new_Chart_free:
  assumes "live_on b cv = []"
  shows "new_Chart cv cfg b =
    Inr (next_chart_id b,
         b\<lparr>instances := instances b @ [\<lparr>chart_id = next_chart_id b, chart_canvas = cv, chart_config = cfg\<rparr>],
           next_chart_id := Suc (next_chart_id b)\<rparr>)"
  using assms by (simp add: new_Chart_def getChart_None [symmetric])

lemma renderChart_present:
  assumes inv: "length (live_on b (surface c)) \<le> 1" and dom: "surface c \<in> dom_ids b"
  shows "\<exists>c' b'. renderChart unicode_upper c b = Inr (c', b')
           \<and> surface c' = surface c \<and> dom_ids b' = dom_ids b
           \<and> (\<exists>ch. live_on b' (surface c) = [ch] \<and> chartInstance c' = Some (chart_id ch)
                 \<and> cfg_labels (chart_config ch) = fst (chart_data unicode_upper (ctype c) (data c))
                 \<and> cfg_datasets (chart_config ch) = snd (chart_data unicode_upper (ctype c) (data c)))"
proof -
  obtain c1 b2 where de: "destroy_existing c b = (c1, b2)"
    by (cases "destroy_existing c b")
  have clear: "live_on b2 (surface c) = []"
    using destroy_existing_clears [OF inv] de by simp
  have c1: "c1 = c\<lparr>chartInstance := None\<rparr>"
    using destroy_existing_handle [of c b] de by simp
  have d2: "dom_ids b2 = dom_ids b"
    using destroy_existing_frame [of c b] de by simp
  obtain labels datasets where cd: "chart_data unicode_upper (ctype c) (data c) = (labels, datasets)"
    by (cases "chart_data unicode_upper (ctype c) (data c)")
  show ?thesis
    using dom clear
    by (simp add: renderChart_def de cd new_Chart_free c1 d2 surface_def live_on_def)
qed

lemma renderChart_absent:
  "surface c \<notin> dom_ids b \<Longrightarrow> renderChart unicode_upper c b = Inr (c, b)"
  by (simp add: renderChart_def)

lemma renderChart_step:
  assumes inv: "length (live_on b (surface c)) \<le> 1"
  shows "\<exists>c' b'. renderChart unicode_upper c b = Inr (c', b')
           \<and> surface c' = surface c \<and> dom_ids b' = dom_ids b
           \<and> length (live_on b' (surface c)) \<le> 1
           \<and> (surface c \<in> dom_ids b \<longrightarrow> length (live_on b' (surface c)) = 1)"
proof (cases "surface c \<in> dom_ids b")
  case True
  from renderChart_present [OF inv True] show ?thesis
    using True by fastforce
next
  case False
  then show ?thesis
    using inv by (simp add: renderChart_absent)
qed

lemma surface_inputs: "surface (c\<lparr>data := d, ctype := k\<rparr>) = surface c"
  by (simp add: surface_def)

lemma render_calls_inv:
  assumes "length (live_on b (surface c)) \<le> 1"
  shows "\<exists>c' b'. render_calls unicode_upper calls c b = Inr (c', b')
           \<and> surface c' = surface c \<and> dom_ids b' = dom_ids b
           \<and> length (live_on b' (surface c)) \<le> 1
           \<and> (calls \<noteq> [] \<and> surface c \<in> dom_ids b \<longrightarrow> length (live_on b' (surface c)) = 1)"
  using assms
proof (induction calls arbitrary: c b)
  case Nil
  then show ?case by simp
next
  case (Cons call calls)
  obtain d k where call: "call = (d, k)" by (cases call)
  let ?c = "c\<lparr>data := d, ctype := k\<rparr>"
  have inv: "length (live_on b (surface ?c)) \<le> 1"
    using Cons.prems by (simp add: surface_inputs)
  from renderChart_step [OF inv, where unicode_upper = unicode_upper] obtain c1 b1 where
    r: "renderChart unicode_upper ?c b = Inr (c1, b1)" and s: "surface c1 = surface c"
    and dm: "dom_ids b1 = dom_ids b"
    and l: "length (live_on b1 (surface c)) \<le> 1"
    and l1: "surface c \<in> dom_ids b \<longrightarrow> length (live_on b1 (surface c)) = 1"
    by (auto simp: surface_inputs)
  have inv1: "length (live_on b1 (surface c1)) \<le> 1"
    using l s by simp
  from Cons.IH [OF inv1] obtain c' b' where
    rc: "render_calls unicode_upper calls c1 b1 = Inr (c', b')" and s': "surface c' = surface c1"
    and dm': "dom_ids b' = dom_ids b1"
    and l': "length (live_on b' (surface c1)) \<le> 1"
    and l1': "calls \<noteq> [] \<and> surface c1 \<in> dom_ids b1 \<longrightarrow> length (live_on b' (surface c1)) = 1"
    by blast
  have last: "surface c \<in> dom_ids b \<longrightarrow> length (live_on b' (surface c)) = 1"
  proof (cases "calls = []")
    case True
    then show ?thesis using rc l1 by simp
  next
    case False
    then show ?thesis using l1' s dm by simp
  qed
  show ?case
    using r rc s s' dm dm' l' last by (simp add: call)
qed

text \<open>
  Claim C6. On a surface that holds at most one live chart (as the engine's registry guarantees),
  the two destroy steps of \<open>renderChart\<close> leave no live chart on the surface and leave the
  component's tracked chart destroyed, so the new chart is created on a free canvas; and after
  every prefix of every sequence of render calls on the surface no call has failed and at most
  one live chart is bound to it (exactly one after a call that found the surface in the
  document).
\<close>

theorem one_live_chart_per_surface:
  assumes "length (live_on b (surface c)) \<le> 1"
  shows "live_on (snd (destroy_existing c b)) (surface c) = []
       \<and> (\<forall>h. chartInstance c = Some h \<longrightarrow>
             h \<notin> chart_id ` set (instances (snd (destroy_existing c b))))
       \<and> (\<forall>n. \<exists>c' b'. render_calls unicode_upper (take n calls) c b = Inr (c', b')
             \<and> length (live_on b' (surface c)) \<le> 1
             \<and> (take n calls \<noteq> [] \<and> surface c \<in> dom_ids b \<longrightarrow>
                  length (live_on b' (surface c)) = 1))"
proof (intro conjI allI impI)
  show "live_on (snd (destroy_existing c b)) (surface c) = []"
    using assms by (rule destroy_existing_clears)
next
  fix h assume "chartInstance c = Some h"
  then show "h \<notin> chart_id ` set (instances (snd (destroy_existing c b)))"
    by (rule destroy_existing_handle_dead)
next
  fix n
  from render_calls_inv [OF assms, where calls = "take n calls" and unicode_upper = unicode_upper]
  show "\<exists>c' b'. render_calls unicode_upper (take n calls) c b = Inr (c', b')
          \<and> length (live_on b' (surface c)) \<le> 1
          \<and> (take n calls \<noteq> [] \<and> surface c \<in> dom_ids b \<longrightarrow>
               length (live_on b' (surface c)) = 1)"
    by blast
qed

theorem one_live_chart_per_surface_witness:
  "length (live_on
      \<lparr>dom_ids = {(utf16 ''status_chart'')},
       instances = [\<lparr>chart_id = 0, chart_canvas = utf16 ''status_chart'',
                     chart_config = \<lparr>cfg_type = Pie, cfg_labels = [], cfg_datasets = [],
                                     cfg_options = getChartOptions Pie []\<rparr>\<rparr>],
       next_chart_id = 1\<rparr>
      (surface \<lparr>data = [], ctype = Pie, title = utf16 ''Equipment'', chartId = utf16 ''status'',
                chartInstance = None\<rparr>)) \<le> 1
   \<and> (\<exists>c' b'. render_calls ascii_upper_only (take 2 [([], Pie), ([], Line)])
         \<lparr>data = [], ctype = Pie, title = utf16 ''Equipment'', chartId = utf16 ''status'', chartInstance = None\<rparr>
         \<lparr>dom_ids = {(utf16 ''status_chart'')},
          instances = [\<lparr>chart_id = 0, chart_canvas = utf16 ''status_chart'',
                        chart_config = \<lparr>cfg_type = Pie, cfg_labels = [], cfg_datasets = [],
                                        cfg_options = getChartOptions Pie []\<rparr>\<rparr>],
          next_chart_id = 1\<rparr> = Inr (c', b')
       \<and> length (live_on b'
            (surface \<lparr>data = [], ctype = Pie, title = utf16 ''Equipment'', chartId = utf16 ''status'',
                      chartInstance = None\<rparr>)) = 1)"
proof -
  let ?c = "\<lparr>data = [], ctype = Pie, title = utf16 ''Equipment'', chartId = utf16 ''status'',
             chartInstance = None\<rparr>"
  let ?b = "\<lparr>dom_ids = {(utf16 ''status_chart'')},
       instances = [\<lparr>chart_id = 0, chart_canvas = utf16 ''status_chart'',
                     chart_config = \<lparr>cfg_type = Pie, cfg_labels = [], cfg_datasets = [],
                                     cfg_options = getChartOptions Pie []\<rparr>\<rparr>],
       next_chart_id = 1\<rparr>"
  have s: "surface ?c = utf16 ''status_chart''"
    by (simp add: surface_def)
  have h: "length (live_on ?b (surface ?c)) \<le> 1"
    by (simp add: s live_on_def)
  have d: "take 2 [([], Pie), ([], Line)] \<noteq> [] \<and> surface ?c \<in> dom_ids ?b"
    by (simp add: s)
  from one_live_chart_per_surface [OF h, where calls = "[([], Pie), ([], Line)]"
      and unicode_upper = ascii_upper_only] d h
  show ?thesis
    by blast
qed

section \<open>Reading the session list\<close>

text \<open>
  Claim C7. Reading the session list never raises a fault: \<open>refreshSessions\<close> always returns.
  When the blob is absent (or the store cannot be read), or present but not parseable, the
  session list becomes the empty sequence; when the blob parses, the list is exactly the parsed
  content. \<open>JSON.parse\<close> is a parameter, of which only one fact is used: the empty text is
  not JSON.
\<close>

theorem refreshSessions_total:
  assumes "parse [] = None"
  shows "\<exists>app'. refreshSessions parse ls app = Inr app'
           \<and> app' = app\<lparr>sessions := sessions app'\<rparr>
           \<and> (\<not> accessible ls \<or> items ls (utf16 ''mining_chat_sessions_v1'') = None
                \<longrightarrow> sessions app' = JsonArr [])
           \<and> (\<forall>raw. accessible ls \<and> items ls (utf16 ''mining_chat_sessions_v1'') = Some raw
                  \<and> parse raw = None \<longrightarrow> sessions app' = JsonArr [])
           \<and> (\<forall>raw v. accessible ls \<and> items ls (utf16 ''mining_chat_sessions_v1'') = Some raw
                  \<and> parse raw = Some v \<longrightarrow> sessions app' = v)"
  using assms
  by (cases "accessible ls"; cases "items ls (utf16 ''mining_chat_sessions_v1'')")
     (auto simp: refreshSessions_def refreshSessions_try_def getItem_def split: option.splits)

theorem refreshSessions_total_witness:
  "(\<lambda>s. if s = (utf16 ''[null]'') then Some (JsonArr [JsonNull]) else None) [] = None
   \<and> (\<exists>app'. refreshSessions (\<lambda>s. if s = (utf16 ''[null]'') then Some (JsonArr [JsonNull]) else None)
          \<lparr>accessible = True, items = [(utf16 ''mining_chat_sessions_v1'') \<mapsto> (utf16 ''[null]'')]\<rparr>
          \<lparr>isHealthy = False, selectedLanguage = utf16 ''en'', showHistory = True, sessions = JsonArr []\<rparr>
            = Inr app'
        \<and> sessions app' = JsonArr [JsonNull])
   \<and> (\<exists>app'. refreshSessions (\<lambda>s. if s = (utf16 ''[null]'') then Some (JsonArr [JsonNull]) else None)
          \<lparr>accessible = True, items = [(utf16 ''mining_chat_sessions_v1'') \<mapsto> (utf16 ''{oops'')]\<rparr>
          \<lparr>isHealthy = False, selectedLanguage = utf16 ''en'', showHistory = True, sessions = JsonNull\<rparr>
            = Inr app'
        \<and> sessions app' = JsonArr [])
   \<and> (\<exists>app'. refreshSessions (\<lambda>s. if s = (utf16 ''[null]'') then Some (JsonArr [JsonNull]) else None)
          \<lparr>accessible = True, items = Map.empty\<rparr>
          \<lparr>isHealthy = False, selectedLanguage = utf16 ''en'', showHistory = True, sessions = JsonNull\<rparr>
            = Inr app'
        \<and> sessions app' = JsonArr [])"
proof -
  let ?parse = "\<lambda>s. if s = (utf16 ''[null]'') then Some (JsonArr [JsonNull]) else None"
  have p: "?parse [] = None" by simp
  from refreshSessions_total [of ?parse, OF p,
      of "\<lparr>accessible = True, items = [(utf16 ''mining_chat_sessions_v1'') \<mapsto> (utf16 ''[null]'')]\<rparr>"
         "\<lparr>isHealthy = False, selectedLanguage = utf16 ''en'', showHistory = True, sessions = JsonArr []\<rparr>"]
  have a: "\<exists>app'. refreshSessions ?parse
          \<lparr>accessible = True, items = [(utf16 ''mining_chat_sessions_v1'') \<mapsto> (utf16 ''[null]'')]\<rparr>
          \<lparr>isHealthy = False, selectedLanguage = utf16 ''en'', showHistory = True, sessions = JsonArr []\<rparr>
            = Inr app'
        \<and> sessions app' = JsonArr [JsonNull]"
    by simp blast
  from refreshSessions_total [of ?parse, OF p,
      of "\<lparr>accessible = True, items = [(utf16 ''mining_chat_sessions_v1'') \<mapsto> (utf16 ''{oops'')]\<rparr>"
         "\<lparr>isHealthy = False, selectedLanguage = utf16 ''en'', showHistory = True, sessions = JsonNull\<rparr>"]
  have b: "\<exists>app'. refreshSessions ?parse
          \<lparr>accessible = True, items = [(utf16 ''mining_chat_sessions_v1'') \<mapsto> (utf16 ''{oops'')]\<rparr>
          \<lparr>isHealthy = False, selectedLanguage = utf16 ''en'', showHistory = True, sessions = JsonNull\<rparr>
            = Inr app'
        \<and> sessions app' = JsonArr []"
    by simp blast
  from refreshSessions_total [of ?parse, OF p,
      of "\<lparr>accessible = True, items = Map.empty\<rparr>"
         "\<lparr>isHealthy = False, selectedLanguage = utf16 ''en'', showHistory = True, sessions = JsonNull\<rparr>"]
  have c: "\<exists>app'. refreshSessions ?parse
          \<lparr>accessible = True, items = Map.empty\<rparr>
          \<lparr>isHealthy = False, selectedLanguage = utf16 ''en'', showHistory = True, sessions = JsonNull\<rparr>
            = Inr app'
        \<and> sessions app' = JsonArr []"
    by simp blast
  from p a b c show ?thesis by blast
qed

section \<open>Conversation controller: submit and its outcomes\<close>

lemma persist_user_message_chat:
  "chat (snd (persist_user_message now new_id w)) =
     (chat w)\<lparr>messages := messages (chat w) @ [plain_message User (userInput (chat w)) now],
              currentSession := Some (case currentSession (chat w) of
                  None \<Rightarrow> fst (history_create (userInput (chat w)) (language (chat w)) new_id now (history w))
                | Some s \<Rightarrow> s)\<rparr>"
  by (cases "currentSession (chat w)")
     (simp_all add: persist_user_message_def Let_def history_create_def)


lemma auto_title_chat: "chat (auto_title m now w) = chat w"
  by (simp add: auto_title_def split: option.splits)

lemma sendMessage_accepted:
  assumes "trim (userInput (chat w)) \<noteq> []" and "\<not> isLoading (chat w)"
  shows "sendMessage now new_id w =
    (let p = persist_user_message now new_id w;
         w2 = auto_title (fst p) now (snd p)
     in w2\<lparr>chat := (chat w2)\<lparr>userInput := [], isLoading := True\<rparr>,
           sent_queries := sent_queries w2 @
             [(userInput (chat w2), language (chat w2), includeAudio (chat w2))]\<rparr>)"
  using assms by (simp add: sendMessage_def Let_def split: prod.splits)

lemma sendMessage_accepted_chat:
  assumes "trim (userInput (chat w)) \<noteq> []" and "\<not> isLoading (chat w)"
  shows "chat (sendMessage now new_id w) =
     (chat w)\<lparr>messages := messages (chat w) @ [plain_message User (userInput (chat w)) now],
              currentSession := Some (case currentSession (chat w) of
                  None \<Rightarrow> fst (history_create (userInput (chat w)) (language (chat w)) new_id now (history w))
                | Some s \<Rightarrow> s),
              userInput := [], isLoading := True\<rparr>"
  by (simp add: sendMessage_accepted [OF assms] Let_def auto_title_chat persist_user_message_chat)

lemma sendQuery_error_chat:
  "chat (sendQuery_error q now w) =
     (chat w)\<lparr>isLoading := False, messages := messages (chat w) @ [fallback_message q now]\<rparr>"
  by (simp add: sendQuery_error_def Let_def)

text \<open>
  Claim C1. When an accepted submit is completed by the transport-level failure callback, the
  in-memory message list is the old list, the user's message and exactly one assistant fallback
  message that carries the locally written placeholder visualization data; the controller is
  loading in between and idle (\<open>isLoading\<close> false) afterwards. The last conjunct is the
  callback alone, on whatever state it finds: it appends exactly that one message and leaves
  the controller idle.
\<close>

theorem transport_failure_fallback:
  assumes "trim (userInput (chat w)) \<noteq> []" and "\<not> isLoading (chat w)"
  shows "isLoading (chat (sendMessage t1 new_id w))
       \<and> messages (chat (sendQuery_error (userInput (chat w)) t2 (sendMessage t1 new_id w)))
           = messages (chat w) @ [plain_message User (userInput (chat w)) t1,
                                   fallback_message (userInput (chat w)) t2]
       \<and> \<not> isLoading (chat (sendQuery_error (userInput (chat w)) t2 (sendMessage t1 new_id w)))
       \<and> role (fallback_message (userInput (chat w)) t2) = Assistant
       \<and> visualizations (fallback_message (userInput (chat w)) t2) = Some fallback_visualizations
       \<and> (\<forall>q w1. messages (chat (sendQuery_error q t2 w1)) = messages (chat w1) @ [fallback_message q t2]
                \<and> \<not> isLoading (chat (sendQuery_error q t2 w1)))"
  by (simp add: sendQuery_error_chat sendMessage_accepted_chat [OF assms] fallback_message_def)

theorem transport_failure_fallback_witness:
  "trim (userInput (chat (type_input (utf16 ''status?'') (ngOnInit 1 initial_world)))) \<noteq> []
   \<and> \<not> isLoading (chat (type_input (utf16 ''status?'') (ngOnInit 1 initial_world)))
   \<and> messages (chat (sendQuery_error (utf16 ''status?'') 3
        (sendMessage 2 (utf16 ''s1'') (type_input (utf16 ''status?'') (ngOnInit 1 initial_world)))))
       = [plain_message Assistant greeting 1, plain_message User (utf16 ''status?'') 2,
          fallback_message (utf16 ''status?'') 3]
   \<and> \<not> isLoading (chat (sendQuery_error (utf16 ''status?'') 3
        (sendMessage 2 (utf16 ''s1'') (type_input (utf16 ''status?'') (ngOnInit 1 initial_world)))))"
proof -
  let ?w = "type_input (utf16 ''status?'') (ngOnInit 1 initial_world)"
  have u: "userInput (chat ?w) = utf16 ''status?''"
    by (simp add: type_input_def)
  have a: "trim (userInput (chat ?w)) \<noteq> []"
    unfolding u by (simp add: trim_def is_white_space_def utf16_def)
  have b: "\<not> isLoading (chat ?w)"
    by (simp add: type_input_def ngOnInit_def initial_world_def)
  have m: "messages (chat ?w) = [plain_message Assistant greeting 1]"
    by (simp add: type_input_def ngOnInit_def initial_world_def)
  note t = transport_failure_fallback [OF a b, of 2 "(utf16 ''s1'')" 3]
  from t have "messages (chat (sendQuery_error (userInput (chat ?w)) 3 (sendMessage 2 (utf16 ''s1'') ?w)))
      = messages (chat ?w) @ [plain_message User (userInput (chat ?w)) 2,
                               fallback_message (userInput (chat ?w)) 3]"
    by blast
  then have 1: "messages (chat (sendQuery_error (utf16 ''status?'') 3 (sendMessage 2 (utf16 ''s1'') ?w)))
      = [plain_message Assistant greeting 1, plain_message User (utf16 ''status?'') 2,
         fallback_message (utf16 ''status?'') 3]"
    unfolding u m by simp
  from t have "\<not> isLoading (chat (sendQuery_error (userInput (chat ?w)) 3 (sendMessage 2 (utf16 ''s1'') ?w)))"
    by blast
  then have 2: "\<not> isLoading (chat (sendQuery_error (utf16 ''status?'') 3 (sendMessage 2 (utf16 ''s1'') ?w)))"
    unfolding u .
  from a b 1 2 show ?thesis
    by blast
qed

text \<open>
  Claim C2. For every controller state, \<open>sendMessage\<close> with a blank or whitespace-only input,
  or while a request is in flight, changes nothing at all: the message list, the
  current-session pointer, the loading flag, the input text, the session store and the list of
  queries sent are those of the state before.
\<close>

theorem submit_rejected_noop:
  assumes "trim (userInput (chat w)) = [] \<or> isLoading (chat w)"
  shows "sendMessage now new_id w = w"
  using assms by (simp add: sendMessage_def)








lemmas chat_eval =
  sendMessage_def persist_user_message_def auto_title_def type_input_def ngOnInit_def
  initial_world_def trim_def is_white_space_def history_create_def history_appendMessage_def
  history_rename_def Let_def plain_message_def utf16_def

text \<open>The two rejected cases: an input of a space, a no-break space and an ideographic
  space; and a second submit while the first is awaiting its answer.\<close>

theorem submit_rejected_noop_witness:
  "(trim (userInput (chat (type_input [0x0020, 0x00A0, 0x3000] (ngOnInit 1 initial_world)))) = []
      \<or> isLoading (chat (type_input [0x0020, 0x00A0, 0x3000] (ngOnInit 1 initial_world))))
   \<and> sendMessage 2 (utf16 ''s1'') (type_input [0x0020, 0x00A0, 0x3000] (ngOnInit 1 initial_world))
       = type_input [0x0020, 0x00A0, 0x3000] (ngOnInit 1 initial_world)
   \<and> (trim (userInput (chat (type_input (utf16 ''again'')
        (sendMessage 2 (utf16 ''s1'') (type_input (utf16 ''hello'') (ngOnInit 1 initial_world)))))) = []
      \<or> isLoading (chat (type_input (utf16 ''again'')
        (sendMessage 2 (utf16 ''s1'') (type_input (utf16 ''hello'') (ngOnInit 1 initial_world))))))
   \<and> sendMessage 3 (utf16 ''s2'') (type_input (utf16 ''again'')
        (sendMessage 2 (utf16 ''s1'') (type_input (utf16 ''hello'') (ngOnInit 1 initial_world))))
       = type_input (utf16 ''again'')
        (sendMessage 2 (utf16 ''s1'') (type_input (utf16 ''hello'') (ngOnInit 1 initial_world)))"
proof -
  let ?w = "type_input [0x0020, 0x00A0, 0x3000] (ngOnInit 1 initial_world)"
  let ?v = "type_input (utf16 ''again'')
        (sendMessage 2 (utf16 ''s1'') (type_input (utf16 ''hello'') (ngOnInit 1 initial_world)))"
  have u: "userInput (chat ?w) = [0x0020, 0x00A0, 0x3000]"
    by (simp add: type_input_def)
  have a: "trim (userInput (chat ?w)) = [] \<or> isLoading (chat ?w)"
    unfolding u by (simp add: trim_def is_white_space_def utf16_def)
  have "isLoading (chat ?v)"
    by (simp add: chat_eval)
  then have b: "trim (userInput (chat ?v)) = [] \<or> isLoading (chat ?v)"
    by blast
  from submit_rejected_noop [OF a, of 2 "utf16 ''s1''"]
    submit_rejected_noop [OF b, of 3 "utf16 ''s2''"] a b
  show ?thesis
    by blast
qed

text \<open>
  Claim C3. The controller asks for the rename when its in-memory message list holds two
  messages once the user's message is appended, which is the first exchange of a conversation
  that started with the greeting. \<open>clearChat\<close> makes the list short again while the session
  stays: after a first exchange (session created, user message and answer persisted, session
  renamed) and \<open>clearChat\<close>, the next submit appends the session's third message and renames
  the session a second time, to the new text.
\<close>

theorem auto_rename_after_clearChat:
  "history_calls (type_input (utf16 ''again'') (clearChat 4
      (sendQuery_next \<lparr>resp_success = True, resp_answer = utf16 ''All fine.'',
          resp_visualizations = None, resp_recommendations = None, resp_audio = None\<rparr> 3
        (sendMessage 2 (utf16 ''s1'') (type_input (utf16 ''hello'') (ngOnInit 1 initial_world))))))
     = [HCreate (utf16 ''hello'') (utf16 ''en''),
        HAppendMessage (utf16 ''s1'') (plain_message User (utf16 ''hello'') 2),
        HRename (utf16 ''s1'') (utf16 ''hello''),
        HAppendMessage (utf16 ''s1'')
          \<lparr>role = Assistant, content = utf16 ''All fine.'', timestamp = 3,
           visualizations = None, recommendations = None, audio = None\<rparr>]
   \<and> renames_of (drop 4 (history_calls (sendMessage 5 (utf16 ''s2'')
        (type_input (utf16 ''again'') (clearChat 4
          (sendQuery_next \<lparr>resp_success = True, resp_answer = utf16 ''All fine.'',
              resp_visualizations = None, resp_recommendations = None, resp_audio = None\<rparr> 3
            (sendMessage 2 (utf16 ''s1'')
              (type_input (utf16 ''hello'') (ngOnInit 1 initial_world)))))))))
     = [(utf16 ''s1'', utf16 ''again'')]"
  by (simp add: chat_eval sendQuery_next_def clearChat_def)

section \<open>Conversation controller: failures and the session store\<close>














section \<open>Conversation controller: clearing the chat\<close>




end
